theory Spec2Isabelle
  imports Complex_Main "HOL-Library.Sublist" "HOL-Library.Char_ord" "HOL-Library.List_Lexorder"
    "HOL-Library.Product_Lexorder"
begin

section \<open>The sales table\<close>

text \<open>
  The dashboards read one spreadsheet into a pandas DataFrame and never change it
  afterwards. A row of the table is a record with the columns the scripts use. The
  loader of \<^verbatim>\<open>fashion_dashboard.py\<close> coerces \<^verbatim>\<open>Date\<close>, \<^verbatim>\<open>Revenue\<close>,
  \<^verbatim>\<open>Profit\<close> and \<^verbatim>\<open>Quantity\<close> with \<^verbatim>\<open>errors='coerce'\<close>, so these four
  cells can be missing (NaT or NaN): they are options. The identifier and category
  columns are plain strings: the scripts call \<^verbatim>\<open>sorted(data[col].unique().tolist())\<close> on
  the category columns, which only succeeds when every cell is a string.

  A time stamp is an integer (a point on a linear time axis). Amounts are exact rational
  numbers: rounding of binary floating point is not modelled.
\<close>

record SalesRecord =
  Order_ID :: string
  Customer_ID :: string
  Customer_Name :: string
  Date :: "int option"
  Platform :: string
  State :: string
  City :: string
  Product :: string
  SKU :: string
  Quantity :: "rat option"
  Revenue :: "rat option"
  Profit :: "rat option"
  Delivery_Status :: string

type_synonym frame = "SalesRecord list"

subsection \<open>The pandas operations the scripts call\<close>

text \<open>\<^verbatim>\<open>Series >= Timestamp\<close> and \<^verbatim>\<open>Series <= Timestamp\<close>: a missing date (NaT)
  compares false on both sides.\<close>

definition date_ge :: "int option \<Rightarrow> int \<Rightarrow> bool" where
  "date_ge d t = (case d of None \<Rightarrow> False | Some x \<Rightarrow> t \<le> x)"

definition date_le :: "int option \<Rightarrow> int \<Rightarrow> bool" where
  "date_le d t = (case d of None \<Rightarrow> False | Some x \<Rightarrow> x \<le> t)"

text \<open>\<^verbatim>\<open>Series.isin(values)\<close>, row by row.\<close>

definition isin :: "'a \<Rightarrow> 'a list \<Rightarrow> bool" where
  "isin v values = (v \<in> set values)"

text \<open>\<^verbatim>\<open>Series.sum()\<close> skips missing values; the sum of no value is 0.\<close>

definition skipna :: "rat option \<Rightarrow> rat" where
  "skipna v = (case v of None \<Rightarrow> 0 | Some x \<Rightarrow> x)"

definition col_sum :: "('r \<Rightarrow> rat option) \<Rightarrow> 'r list \<Rightarrow> rat" where
  "col_sum col df = sum_list (map (\<lambda>r. skipna (col r)) df)"

text \<open>\<^verbatim>\<open>Series.nunique()\<close>: the number of distinct values of a column.\<close>

definition nunique :: "('r \<Rightarrow> 'k) \<Rightarrow> 'r list \<Rightarrow> nat" where
  "nunique col df = length (remdups (map col df))"

section \<open>Filtering\<close>

text \<open>
  \<^verbatim>\<open>app.py\<close> lines 51--66 and \<^verbatim>\<open>fashion_dashboard.py\<close> lines 53--68 (the second
  half of \<^verbatim>\<open>dashboard.py\<close>, lines 174--190, is the same code): the date filter first,
  then one filter per category, each skipped when the selection holds the entry
  \<^verbatim>\<open>"All"\<close>.
\<close>

definition filtered_data ::
  "int \<Rightarrow> int \<Rightarrow> string list \<Rightarrow> string list \<Rightarrow> string list \<Rightarrow> string list \<Rightarrow> frame \<Rightarrow> frame"
where
  "filtered_data start_date end_date selected_platform selected_state selected_city
      selected_product data =
    (let fd0 = data;
         fd1 = filter (\<lambda>r. date_ge (Date r) start_date \<and> date_le (Date r) end_date) fd0;
         fd2 = (if ''All'' \<notin> set selected_platform
                then filter (\<lambda>r. isin (Platform r) selected_platform) fd1 else fd1);
         fd3 = (if ''All'' \<notin> set selected_state
                then filter (\<lambda>r. isin (State r) selected_state) fd2 else fd2);
         fd4 = (if ''All'' \<notin> set selected_city
                then filter (\<lambda>r. isin (City r) selected_city) fd3 else fd3);
         fd5 = (if ''All'' \<notin> set selected_product
                then filter (\<lambda>r. isin (Product r) selected_product) fd4 else fd4)
     in fd5)"

text \<open>
  The predicate of the specification, in its words: the date lies in the closed range,
  and each category is either unrestricted (the selection names the entry "All") or the
  row's value is one of the selected values.
\<close>

definition dimension_accepts :: "string list \<Rightarrow> string \<Rightarrow> bool" where
  "dimension_accepts selection v \<longleftrightarrow> ''All'' \<in> set selection \<or> v \<in> set selection"

definition spec_predicate ::
  "int \<Rightarrow> int \<Rightarrow> string list \<Rightarrow> string list \<Rightarrow> string list \<Rightarrow> string list \<Rightarrow> SalesRecord \<Rightarrow> bool"
where
  "spec_predicate start_date end_date sel_platform sel_state sel_city sel_product r \<longleftrightarrow>
     (\<exists>d. Date r = Some d \<and> start_date \<le> d \<and> d \<le> end_date) \<and>
     dimension_accepts sel_platform (Platform r) \<and>
     dimension_accepts sel_state (State r) \<and>
     dimension_accepts sel_city (City r) \<and>
     dimension_accepts sel_product (Product r)"

subsection \<open>Sample rows\<close>

text \<open>The two rows of the specification's example scenario; dates are day numbers.\<close>

definition row_amazon :: SalesRecord where
  "row_amazon = \<lparr>Order_ID = ''1'', Customer_ID = ''c1'', Customer_Name = ''Asha'',
     Date = Some 19723, Platform = ''Amazon'', State = ''Kerala'', City = ''Kochi'',
     Product = ''Kurta'', SKU = ''K-01'', Quantity = Some 2, Revenue = Some 100,
     Profit = Some 30, Delivery_Status = ''Delivered''\<rparr>"

definition row_flipkart :: SalesRecord where
  "row_flipkart = \<lparr>Order_ID = ''2'', Customer_ID = ''c2'', Customer_Name = ''Binu'',
     Date = Some 19724, Platform = ''Flipkart'', State = ''Goa'', City = ''Panaji'',
     Product = ''Saree'', SKU = ''S-07'', Quantity = Some 1, Revenue = Some 200,
     Profit = Some 50, Delivery_Status = ''Delivered''\<rparr>"

text \<open>A second line of order 1 (same order and customer, another product), and a row of
  a further order that was cancelled.\<close>

definition row_amazon_line2 :: SalesRecord where
  "row_amazon_line2 = row_amazon\<lparr>Product := ''Saree'', SKU := ''S-07'', Quantity := Some 1,
     Revenue := Some 200, Profit := Some 50\<rparr>"

definition row_cancelled :: SalesRecord where
  "row_cancelled = \<lparr>Order_ID = ''3'', Customer_ID = ''c1'', Customer_Name = ''Asha'',
     Date = Some 19725, Platform = ''Shopify'', State = ''Kerala'', City = ''Kochi'',
     Product = ''Kurta'', SKU = ''K-01'', Quantity = Some 1, Revenue = Some 0,
     Profit = Some 0, Delivery_Status = ''Cancelled''\<rparr>"

definition row_cancelled_line2 :: SalesRecord where
  "row_cancelled_line2 = row_cancelled\<lparr>Product := ''Saree'', SKU := ''S-07''\<rparr>"

subsection \<open>The default date range\<close>




subsection \<open>The filter of \<^verbatim>\<open>dashboard.py\<close>\<close>

text \<open>\<^verbatim>\<open>Series.unique()\<close>: the distinct values in order of first appearance.\<close>

definition unique :: "('r \<Rightarrow> 'k) \<Rightarrow> 'r list \<Rightarrow> 'k list" where
  "unique col df = rev (remdups (rev (map col df)))"

text \<open>
  \<^verbatim>\<open>dashboard.py\<close> lines 19--59. The platform comes from a select box (one value, or
  \<^verbatim>\<open>"All"\<close>, which stands for the three listed platforms). The other categories come from
  \<^verbatim>\<open>multiselect_with_all\<close>; its argument \<open>selected\<close> is what the widget returned.
\<close>

definition platform_options :: "string list" where
  "platform_options = [''Amazon'', ''Flipkart'', ''Shopify'']"

definition multiselect_with_all :: "string list \<Rightarrow> string list \<Rightarrow> string list" where
  "multiselect_with_all options selected =
     (if ''All'' \<in> set selected \<or> selected = [] then options else selected)"

definition filtered_df ::
  "int \<Rightarrow> int \<Rightarrow> string \<Rightarrow> string list \<Rightarrow> string list \<Rightarrow> string list \<Rightarrow> frame \<Rightarrow> frame"
where
  "filtered_df date0 date1 selected_platform_sidebar picked_state picked_city picked_product df =
    (let platform_filter = (if selected_platform_sidebar = ''All'' then platform_options
                            else [selected_platform_sidebar]);
         selected_state = multiselect_with_all (unique State df) picked_state;
         selected_city = multiselect_with_all (unique City df) picked_city;
         selected_product = multiselect_with_all (unique Product df) picked_product
     in filter (\<lambda>r. date_ge (Date r) date0 \<and> date_le (Date r) date1 \<and>
                    isin (Platform r) platform_filter \<and> isin (State r) selected_state \<and>
                    isin (City r) selected_city \<and> isin (Product r) selected_product) df)"

section \<open>Key figures\<close>

text \<open>
  Python's \<^verbatim>\<open>/\<close> is partial. The model raises on a zero divisor, which is the
  strictest reading (numpy scalars would warn and return inf or nan instead).
\<close>

datatype py_error = ZeroDivisionError

definition py_div :: "rat \<Rightarrow> rat \<Rightarrow> py_error + rat" where
  "py_div a b = (if b = 0 then Inl ZeroDivisionError else Inr (a / b))"

record KPISet =
  total_revenue :: rat
  total_orders :: nat
  average_order_value :: rat
  total_profit :: rat
  total_quantity :: rat
  unique_customers :: nat
  cancel_return_orders :: nat

text \<open>\<^verbatim>\<open>aov = total_revenue / total_orders if total_orders else 0\<close>
  (\<^verbatim>\<open>app.py\<close> line 76, \<^verbatim>\<open>fashion_dashboard.py\<close> line 77).\<close>

definition aov :: "rat \<Rightarrow> nat \<Rightarrow> py_error + rat" where
  "aov revenue orders = (if orders \<noteq> 0 then py_div revenue (of_nat orders) else Inr 0)"

text \<open>\<^verbatim>\<open>app.py\<close> lines 80--82: the distinct orders among the rows whose status is
  \<^verbatim>\<open>Return\<close> or \<^verbatim>\<open>Cancel\<close>.\<close>

definition return_cancel_orders :: "frame \<Rightarrow> nat" where
  "return_cancel_orders fd =
     nunique Order_ID (filter (\<lambda>r. isin (Delivery_Status r) [''Return'', ''Cancel'']) fd)"

text \<open>\<^verbatim>\<open>fashion_dashboard.py\<close> line 81 (and \<^verbatim>\<open>dashboard.py\<close> line 203): the sum of the
  boolean column \<^verbatim>\<open>isin(['Cancelled', 'Returned'])\<close>, that is the number of rows where it
  is true. The column \<^verbatim>\<open>Delivery_Status\<close> is part of the table here, so the script's
  \<^verbatim>\<open>else 0\<close> branch is not taken.\<close>

definition cancel_return_orders_fashion :: "frame \<Rightarrow> nat" where
  "cancel_return_orders_fashion fd =
     length (filter (\<lambda>r. isin (Delivery_Status r) [''Cancelled'', ''Returned'']) fd)"

text \<open>The key figures of \<^verbatim>\<open>app.py\<close> (lines 74--85) and of \<^verbatim>\<open>fashion_dashboard.py\<close>
  (lines 75--81); they differ in the cancel/return figure only.\<close>

definition kpis_app :: "frame \<Rightarrow> py_error + KPISet" where
  "kpis_app fd =
    (let revenue = col_sum Revenue fd;
         orders = nunique Order_ID fd
     in case aov revenue orders of
          Inl err \<Rightarrow> Inl err
        | Inr a \<Rightarrow> Inr \<lparr>total_revenue = revenue, total_orders = orders,
            average_order_value = a, total_profit = col_sum Profit fd,
            total_quantity = col_sum Quantity fd,
            unique_customers = nunique Customer_ID fd,
            cancel_return_orders = return_cancel_orders fd\<rparr>)"

definition kpis_fashion :: "frame \<Rightarrow> py_error + KPISet" where
  "kpis_fashion fd =
    (let revenue = col_sum Revenue fd;
         orders = nunique Order_ID fd
     in case aov revenue orders of
          Inl err \<Rightarrow> Inl err
        | Inr a \<Rightarrow> Inr \<lparr>total_revenue = revenue, total_orders = orders,
            average_order_value = a, total_profit = col_sum Profit fd,
            total_quantity = col_sum Quantity fd,
            unique_customers = nunique Customer_ID fd,
            cancel_return_orders = cancel_return_orders_fashion fd\<rparr>)"

text \<open>Both scripts test \<^verbatim>\<open>filtered_data.empty\<close> first: an empty view shows the warning
  "No data available for the selected filters." and computes nothing; any other view
  shows the key figures.\<close>

datatype page = No_Data_Warning | Metrics KPISet

definition page_app :: "frame \<Rightarrow> py_error + page" where
  "page_app fd =
     (if fd = [] then Inr No_Data_Warning
      else case kpis_app fd of Inl err \<Rightarrow> Inl err | Inr k \<Rightarrow> Inr (Metrics k))"

definition page_fashion :: "frame \<Rightarrow> py_error + page" where
  "page_fashion fd =
     (if fd = [] then Inr No_Data_Warning
      else case kpis_fashion fd of Inl err \<Rightarrow> Inl err | Inr k \<Rightarrow> Inr (Metrics k))"

text \<open>\<^verbatim>\<open>dashboard.py\<close> lines 64 and 66: the first script divides the revenue by the
  number of rows (at least 1) and counts the rows with a cancel/return status.\<close>

definition aov_dashboard :: "frame \<Rightarrow> py_error + rat" where
  "aov_dashboard fdf = py_div (col_sum Revenue fdf) (of_nat (max (length fdf) 1))"

definition return_cancel_count :: "frame \<Rightarrow> nat" where
  "return_cancel_count fdf =
     length (filter (\<lambda>r. isin (Delivery_Status r) [''Returned'', ''Cancelled'']) fdf)"

definition zero_kpis :: KPISet where
  "zero_kpis = \<lparr>total_revenue = 0, total_orders = 0, average_order_value = 0,
     total_profit = 0, total_quantity = 0, unique_customers = 0, cancel_return_orders = 0\<rparr>"


section \<open>Grouped sums and rankings\<close>

text \<open>
  \<^verbatim>\<open>df.groupby(key)[col].sum()\<close>: one entry per distinct key, the keys in ascending
  order (pandas sorts the group keys unless told otherwise), each with the sum of the
  column over the rows of that key, missing values skipped.
\<close>

definition groupby_sum ::
  "('r \<Rightarrow> 'k::linorder) \<Rightarrow> ('r \<Rightarrow> rat option) \<Rightarrow> 'r list \<Rightarrow> ('k \<times> rat) list"
where
  "groupby_sum key col df =
     map (\<lambda>k. (k, col_sum col (filter (\<lambda>r. key r = k) df))) (sort (remdups (map key df)))"

text \<open>
  \<^verbatim>\<open>Series.sort_values(ascending=False)\<close>: pandas reverses the series, sorts the
  reversed values in ascending order and reverses the result. The sort is taken to be
  stable, so entries with equal values keep the order they have in the series.
\<close>

definition sort_values_desc :: "('k \<times> rat) list \<Rightarrow> ('k \<times> rat) list" where
  "sort_values_desc s = rev (sort_key snd (rev s))"

text \<open>\<^verbatim>\<open>Series.head(n)\<close> for \<open>n \<ge> 0\<close>: the first \<open>n\<close> entries, or all of them.\<close>

definition head :: "nat \<Rightarrow> 'a list \<Rightarrow> 'a list" where
  "head n s = take n s"

text \<open>
  \<^verbatim>\<open>filtered_data.groupby(key)[col].sum().sort_values(ascending=False).head(top_n)\<close>,
  the ranking of \<^verbatim>\<open>fashion_dashboard.py\<close> lines 106 and 110 (\<^verbatim>\<open>app.py\<close> lines 111 and
  118 with \<open>top_n = 5\<close>).
\<close>

definition top_groups ::
  "('r \<Rightarrow> 'k::linorder) \<Rightarrow> ('r \<Rightarrow> rat option) \<Rightarrow> nat \<Rightarrow> 'r list \<Rightarrow> ('k \<times> rat) list"
where
  "top_groups key col top_n fd = head top_n (sort_values_desc (groupby_sum key col fd))"


definition top_products :: "nat \<Rightarrow> frame \<Rightarrow> (string \<times> rat) list" where
  "top_products top_n fd = top_groups Product Revenue top_n fd"


text \<open>
  \<^verbatim>\<open>Series.nlargest(n)\<close> (\<^verbatim>\<open>dashboard.py\<close> lines 94 and 100): the \<open>n\<close> largest
  values in descending order; with the default \<^verbatim>\<open>keep='first'\<close>, equal values come in
  the order of the series.
\<close>

definition nlargest :: "nat \<Rightarrow> ('k \<times> rat) list \<Rightarrow> ('k \<times> rat) list" where
  "nlargest n s = take n (rev (sort_key snd (rev s)))"

definition top_products_df :: "frame \<Rightarrow> (string \<times> rat) list" where
  "top_products_df fdf = nlargest 5 (groupby_sum Product Revenue fdf)"


section \<open>Customer exports\<close>

text \<open>
  \<^verbatim>\<open>fashion_dashboard.py\<close> lines 161--166: per customer, the number of distinct orders
  and the revenue; the loyal customers are those with more than one order, the one-timers
  those with exactly one.
\<close>

definition customer_orders :: "frame \<Rightarrow> (string \<times> nat \<times> rat) list" where
  "customer_orders fd =
     map (\<lambda>c. (c, nunique Order_ID (filter (\<lambda>r. Customer_ID r = c) fd),
                  col_sum Revenue (filter (\<lambda>r. Customer_ID r = c) fd)))
         (sort (remdups (map Customer_ID fd)))"

definition df_loyal :: "frame \<Rightarrow> (string \<times> nat \<times> rat) list" where
  "df_loyal fd = filter (\<lambda>(c, orders, revenue). orders > 1) (customer_orders fd)"

definition df_one_timer :: "frame \<Rightarrow> (string \<times> nat \<times> rat) list" where
  "df_one_timer fd = filter (\<lambda>(c, orders, revenue). orders = 1) (customer_orders fd)"

text \<open>The distinct orders of a customer in the view.\<close>

definition orders_of :: "frame \<Rightarrow> string \<Rightarrow> string set" where
  "orders_of fd c = Order_ID ` {r \<in> set fd. Customer_ID r = c}"

text \<open>
  \<^verbatim>\<open>dashboard.py\<close> lines 317--318 (the script \<^verbatim>\<open>fashion_brand.py\<close>): the one-time
  customers are computed per group of customer, customer name and city; the groups come
  in lexicographic order of the three keys.
\<close>

definition df_one_timer_brand ::
  "frame \<Rightarrow> ((string \<times> string \<times> string) \<times> rat \<times> rat \<times> nat) list"
where
  "df_one_timer_brand fd =
     filter (\<lambda>(k, profit, quantity, orders). orders = 1)
       (map (\<lambda>k. (k,
              col_sum Profit (filter (\<lambda>r. (Customer_ID r, Customer_Name r, City r) = k) fd),
              col_sum Quantity (filter (\<lambda>r. (Customer_ID r, Customer_Name r, City r) = k) fd),
              nunique Order_ID (filter (\<lambda>r. (Customer_ID r, Customer_Name r, City r) = k) fd)))
            (sort (remdups (map (\<lambda>r. (Customer_ID r, Customer_Name r, City r)) fd))))"

text \<open>A further order of the customer of \<open>row_amazon\<close>, delivered to another city.\<close>

definition row_other_city :: SalesRecord where
  "row_other_city = row_amazon\<lparr>Order_ID := ''5'', City := ''Panaji'', State := ''Goa''\<rparr>"

section \<open>The scripts as programs on a store\<close>












section \<open>Properties of the filter\<close>

lemma date_in_range_iff:
  "date_ge d s \<and> date_le d e \<longleftrightarrow> (\<exists>x. d = Some x \<and> s \<le> x \<and> x \<le> e)"
  by (cases d) (simp_all add: date_ge_def date_le_def)

lemma filtered_data_eq_filter:
  "filtered_data s e sp ss sc spr D = filter (spec_predicate s e sp ss sc spr) D"
proof -
  have pred: "spec_predicate s e sp ss sc spr =
      (\<lambda>r. (date_ge (Date r) s \<and> date_le (Date r) e) \<and>
           dimension_accepts sp (Platform r) \<and> dimension_accepts ss (State r) \<and>
           dimension_accepts sc (City r) \<and> dimension_accepts spr (Product r))"
    by (rule ext) (simp only: spec_predicate_def date_in_range_iff)
  show ?thesis
    unfolding pred filtered_data_def Let_def
    by (simp add: dimension_accepts_def isin_def conj_commute conj_left_commute
          cong: conj_cong)
qed

text \<open>
  C1. The filtered view is the ordered subsequence of the table made of the rows that
  satisfy the conjunctive predicate: it is the table filtered by that predicate, it is a
  subsequence of the table, each of its rows satisfies the predicate, and no row of the
  table that is left out satisfies it.
\<close>

theorem filtered_data_is_ordered_subsequence:
  "filtered_data s e sp ss sc spr D = filter (spec_predicate s e sp ss sc spr) D \<and>
   subseq (filtered_data s e sp ss sc spr D) D \<and>
   (\<forall>r \<in> set (filtered_data s e sp ss sc spr D). spec_predicate s e sp ss sc spr r) \<and>
   (\<forall>r \<in> set D. r \<notin> set (filtered_data s e sp ss sc spr D) \<longrightarrow>
       \<not> spec_predicate s e sp ss sc spr r)"
  by (simp add: filtered_data_eq_filter)

theorem filtered_data_is_ordered_subsequence_witness:
  "filtered_data 19723 19724 [''Amazon''] [''All''] [''All''] [''All'']
      [row_flipkart, row_amazon, row_flipkart] = [row_amazon] \<and>
   spec_predicate 19723 19724 [''Amazon''] [''All''] [''All''] [''All''] row_amazon \<and>
   \<not> spec_predicate 19723 19724 [''Amazon''] [''All''] [''All''] [''All''] row_flipkart"
  using filtered_data_is_ordered_subsequence
    [of 19723 19724 "[''Amazon'']" "[''All'']" "[''All'']" "[''All'']"
        "[row_flipkart, row_amazon, row_flipkart]"]
  by (simp add: spec_predicate_def dimension_accepts_def row_amazon_def row_flipkart_def)

text \<open>
  C2. An empty selection of a category is meant to stand for "all values". The filter of
  \<^verbatim>\<open>app.py\<close> (and of \<^verbatim>\<open>fashion_dashboard.py\<close>) does not do that: with the platform
  selection emptied, everything else unrestricted and the full date range, the view of a
  table of two rows is empty, while the selection \<^verbatim>\<open>["All"]\<close> keeps both rows.
\<close>

theorem app_empty_selection_empties_view:
  "filtered_data 19723 19724 [] [''All''] [''All''] [''All''] [row_amazon, row_flipkart] = [] \<and>
   filtered_data 19723 19724 [''All''] [''All''] [''All''] [''All''] [row_amazon, row_flipkart]
     = [row_amazon, row_flipkart]"
  by (simp add: filtered_data_def isin_def date_ge_def date_le_def row_amazon_def
        row_flipkart_def)

text \<open>The same holds of every table: an emptied selection leaves no row.\<close>

lemma filtered_data_empty_selection:
  "filtered_data s e [] ss sc spr D = []"
  by (simp add: filtered_data_eq_filter spec_predicate_def dimension_accepts_def)

text \<open>\<^verbatim>\<open>multiselect_with_all\<close> of \<^verbatim>\<open>dashboard.py\<close> does treat the empty selection as
  \<^verbatim>\<open>["All"]\<close>, and both keep every row as far as that category goes.\<close>

lemma multiselect_with_all_empty:
  "multiselect_with_all options [] = multiselect_with_all options [''All'']"
  by (simp add: multiselect_with_all_def)

lemma set_unique: "set (unique col df) = col ` set df"
  by (simp add: unique_def)

lemma filtered_df_empty_selection:
  "filtered_df d0 d1 p [] [] [] df =
     filter (\<lambda>r. date_ge (Date r) d0 \<and> date_le (Date r) d1 \<and>
                  isin (Platform r) (if p = ''All'' then platform_options else [p])) df"
  unfolding filtered_df_def Let_def multiselect_with_all_def
  by (rule filter_cong) (auto simp: isin_def set_unique)

text \<open>
  C3. The average order value is the revenue divided by the number of distinct orders.
  The first script of \<^verbatim>\<open>dashboard.py\<close> divides by the number of rows instead: for one
  order of two lines with revenues 100 and 200 it shows 150, where the order count is 1
  and the revenue 300.
\<close>

theorem dashboard_aov_divides_by_rows:
  "aov_dashboard [row_amazon, row_amazon_line2] = Inr 150 \<and>
   nunique Order_ID [row_amazon, row_amazon_line2] = 1 \<and>
   col_sum Revenue [row_amazon, row_amazon_line2] = 300 \<and>
   aov (col_sum Revenue [row_amazon, row_amazon_line2])
       (nunique Order_ID [row_amazon, row_amazon_line2]) = Inr 300"
  by (simp add: aov_dashboard_def aov_def py_div_def col_sum_def skipna_def nunique_def
        row_amazon_def row_amazon_line2_def)

text \<open>The other scripts compute the figure as the claim says.\<close>

lemma aov_eq:
  "aov revenue orders = Inr (if orders = 0 then 0 else revenue / of_nat orders)"
  by (simp add: aov_def py_div_def)

lemma kpis_app_aov:
  "\<exists>k. kpis_app fd = Inr k \<and>
     average_order_value k =
       (if nunique Order_ID fd = 0 then 0
        else col_sum Revenue fd / of_nat (nunique Order_ID fd))"
  by (simp add: kpis_app_def aov_eq Let_def)

text \<open>
  C4. The cancel/return figure is meant to count distinct orders. The figure of
  \<^verbatim>\<open>fashion_dashboard.py\<close> counts rows: one cancelled order of two lines counts as 2.
  The figure of \<^verbatim>\<open>app.py\<close> counts distinct orders, over its own status names.
\<close>

theorem fashion_cancel_return_counts_rows:
  "cancel_return_orders_fashion [row_cancelled, row_cancelled_line2] = 2 \<and>
   nunique Order_ID [row_cancelled, row_cancelled_line2] = 1 \<and>
   return_cancel_orders
     [row_cancelled\<lparr>Delivery_Status := ''Cancel''\<rparr>,
      row_cancelled_line2\<lparr>Delivery_Status := ''Cancel''\<rparr>] = 1"
  by (simp add: cancel_return_orders_fashion_def return_cancel_orders_def nunique_def
        isin_def row_cancelled_def row_cancelled_line2_def)

section \<open>The full date range\<close>








section \<open>The empty view\<close>

text \<open>
  C7. The page is the "no data" warning exactly when the view is empty, so an empty view
  is told apart from a view whose figures happen to be zero. The key figures of the empty
  view are all zero, the average order value among them, and computing the key figures
  or the page never raises: the division is guarded by the order count.
\<close>

theorem empty_view_is_reported:
  "(page_app fd = Inr No_Data_Warning \<longleftrightarrow> fd = []) \<and>
   (page_fashion fd = Inr No_Data_Warning \<longleftrightarrow> fd = []) \<and>
   kpis_app [] = Inr zero_kpis \<and> kpis_fashion [] = Inr zero_kpis \<and>
   (\<exists>k. kpis_app fd = Inr k) \<and> (\<exists>k. kpis_fashion fd = Inr k) \<and>
   (\<exists>p. page_app fd = Inr p) \<and> (\<exists>p. page_fashion fd = Inr p)"
  by (simp add: page_app_def page_fashion_def kpis_app_def kpis_fashion_def aov_eq Let_def
        zero_kpis_def col_sum_def nunique_def return_cancel_orders_def
        cancel_return_orders_fashion_def)

section \<open>Properties of the grouped sums\<close>












section \<open>Properties of the ranking\<close>





lemma top_products_df_eq: "top_products_df fdf = top_products 5 fdf"
  by (simp add: top_products_df_def nlargest_def top_products_def top_groups_def head_def
        sort_values_desc_def)




section \<open>Properties of the customer exports\<close>

lemma nunique_card: "nunique col df = card (col ` set df)"
  by (simp add: nunique_def length_remdups_card_conv)

lemma customer_orders_keys:
  "map fst (customer_orders fd) = sort (remdups (map Customer_ID fd))"
  by (simp add: customer_orders_def comp_def)

lemma customer_orders_count:
  "(c, n, v) \<in> set (customer_orders fd) \<Longrightarrow>
   c \<in> Customer_ID ` set fd \<and> n = card (orders_of fd c)"
  by (auto simp: customer_orders_def nunique_card orders_of_def)

lemma customer_orders_mem:
  "c \<in> Customer_ID ` set fd \<Longrightarrow>
   \<exists>v. (c, card (orders_of fd c), v) \<in> set (customer_orders fd)"
  by (auto simp: customer_orders_def nunique_card orders_of_def image_iff)

lemma orders_of_pos:
  assumes "c \<in> Customer_ID ` set fd"
  shows "card (orders_of fd c) \<ge> 1"
proof -
  from assms have "orders_of fd c \<noteq> {}"
    by (auto simp: orders_of_def)
  moreover have "finite (orders_of fd c)"
    by (simp add: orders_of_def)
  ultimately show ?thesis
    by (simp add: Suc_le_eq card_gt_0_iff)
qed

lemma one_timer_set:
  "set (map fst (df_one_timer fd)) = {c \<in> Customer_ID ` set fd. card (orders_of fd c) = 1}"
proof (intro equalityI subsetI)
  fix c assume "c \<in> set (map fst (df_one_timer fd))"
  then obtain n v where "(c, n, v) \<in> set (customer_orders fd)" "n = 1"
    by (auto simp: df_one_timer_def)
  then show "c \<in> {c \<in> Customer_ID ` set fd. card (orders_of fd c) = 1}"
    using customer_orders_count by fastforce
next
  fix c assume "c \<in> {c \<in> Customer_ID ` set fd. card (orders_of fd c) = 1}"
  then have c: "c \<in> Customer_ID ` set fd" and one: "card (orders_of fd c) = 1"
    by auto
  from customer_orders_mem[OF c] one obtain v where "(c, 1, v) \<in> set (customer_orders fd)"
    by auto
  then show "c \<in> set (map fst (df_one_timer fd))"
    by (force simp: df_one_timer_def)
qed

lemma loyal_set:
  "set (map fst (df_loyal fd)) = {c \<in> Customer_ID ` set fd. card (orders_of fd c) > 1}"
proof (intro equalityI subsetI)
  fix c assume "c \<in> set (map fst (df_loyal fd))"
  then obtain n v where "(c, n, v) \<in> set (customer_orders fd)" "n > 1"
    by (auto simp: df_loyal_def)
  then show "c \<in> {c \<in> Customer_ID ` set fd. card (orders_of fd c) > 1}"
    using customer_orders_count by fastforce
next
  fix c assume "c \<in> {c \<in> Customer_ID ` set fd. card (orders_of fd c) > 1}"
  then have c: "c \<in> Customer_ID ` set fd" and many: "card (orders_of fd c) > 1"
    by auto
  from customer_orders_mem[OF c]
  obtain v where "(c, card (orders_of fd c), v) \<in> set (customer_orders fd)"
    by auto
  with many show "c \<in> set (map fst (df_loyal fd))"
    by (force simp: df_loyal_def)
qed

lemma distinct_exports:
  "distinct (map fst (df_one_timer fd) @ map fst (df_loyal fd))"
proof -
  have d: "distinct (map fst (customer_orders fd))"
    by (simp add: customer_orders_keys)
  have "distinct (map fst (df_one_timer fd))" "distinct (map fst (df_loyal fd))"
    unfolding df_one_timer_def df_loyal_def by (rule distinct_map_filter[OF d])+
  moreover have "set (map fst (df_one_timer fd)) \<inter> set (map fst (df_loyal fd)) = {}"
    unfolding one_timer_set loyal_set by auto
  ultimately show ?thesis by simp
qed

text \<open>The two exports of \<^verbatim>\<open>fashion_dashboard.py\<close> split the customers of the view: no
  customer is in both, each customer is in one, and each export holds the customers its
  name promises.\<close>

lemma exports_partition_customers:
  "set (map fst (df_one_timer fd)) \<inter> set (map fst (df_loyal fd)) = {} \<and>
   set (map fst (df_one_timer fd)) \<union> set (map fst (df_loyal fd)) = Customer_ID ` set fd \<and>
   distinct (map fst (df_one_timer fd) @ map fst (df_loyal fd)) \<and>
   set (map fst (df_one_timer fd)) = {c \<in> Customer_ID ` set fd. card (orders_of fd c) = 1} \<and>
   set (map fst (df_loyal fd)) = {c \<in> Customer_ID ` set fd. card (orders_of fd c) > 1}"
proof (intro conjI)
  show "set (map fst (df_one_timer fd)) \<inter> set (map fst (df_loyal fd)) = {}"
    unfolding one_timer_set loyal_set by auto
  show "set (map fst (df_one_timer fd)) \<union> set (map fst (df_loyal fd)) = Customer_ID ` set fd"
  proof -
    have "card (orders_of fd c) = 1 \<or> card (orders_of fd c) > 1"
      if "c \<in> Customer_ID ` set fd" for c
      using orders_of_pos[OF that] by linarith
    then show ?thesis
      unfolding one_timer_set loyal_set by blast
  qed
  show "distinct (map fst (df_one_timer fd) @ map fst (df_loyal fd))"
    by (rule distinct_exports)
  show "set (map fst (df_one_timer fd)) =
      {c \<in> Customer_ID ` set fd. card (orders_of fd c) = 1}"
    by (rule one_timer_set)
  show "set (map fst (df_loyal fd)) = {c \<in> Customer_ID ` set fd. card (orders_of fd c) > 1}"
    by (rule loyal_set)
qed

text \<open>
  C10. The one-time customers are meant to be the customers with exactly one distinct
  order in the view. The export of \<^verbatim>\<open>dashboard.py\<close> groups by customer, name and city:
  a customer with two orders delivered to two cities is listed as a one-time customer,
  twice, while \<^verbatim>\<open>fashion_dashboard.py\<close> lists the same customer as loyal only.
\<close>

theorem brand_one_timer_lists_repeat_customer:
  "df_one_timer_brand [row_amazon, row_other_city] =
     [((''c1'', ''Asha'', ''Kochi''), 30, 2, 1), ((''c1'', ''Asha'', ''Panaji''), 30, 2, 1)] \<and>
   nunique Order_ID (filter (\<lambda>r. Customer_ID r = ''c1'') [row_amazon, row_other_city]) = 2 \<and>
   df_one_timer [row_amazon, row_other_city] = [] \<and>
   df_loyal [row_amazon, row_other_city] = [(''c1'', 2, 200)]"
  by (simp add: df_one_timer_brand_def df_one_timer_def df_loyal_def customer_orders_def
        col_sum_def skipna_def nunique_def row_amazon_def row_other_city_def)

section \<open>The store is only extended\<close>










end
